theory Spec2Isabelle
  imports Complex_Main
begin

section \<open>JavaScript values\<close>

text \<open>
  The values a parsed JSON body, a query string and a result row carry. Numbers are
  rationals (JSON has no NaN), arrays and objects are kept structurally.
\<close>

datatype jsval =
    JUndefined
  | JNull
  | JBool bool
  | JNum rat
  | JStr string
  | JArr "jsval list"
  | JObj "(string \<times> jsval) list"

text \<open>\<open>!v\<close> is \<open>\<not> truthy v\<close>: undefined, null, false, 0 and the empty string are falsy.\<close>

fun truthy :: "jsval \<Rightarrow> bool" where
  "truthy JUndefined = False"
| "truthy JNull = False"
| "truthy (JBool b) = b"
| "truthy (JNum q) = (q \<noteq> 0)"
| "truthy (JStr s) = (s \<noteq> [])"
| "truthy (JArr xs) = True"
| "truthy (JObj fs) = True"

text \<open>\<open>a || null\<close>\<close>

definition or_null :: "jsval \<Rightarrow> jsval" where
  "or_null v = (if truthy v then v else JNull)"

text \<open>
  \<open>a === b\<close>. A parsed body and a result row never share an array or an object, so two
  such values are never strictly equal.
\<close>

fun strict_eq :: "jsval \<Rightarrow> jsval \<Rightarrow> bool" where
  "strict_eq (JArr xs) b = False"
| "strict_eq (JObj fs) b = False"
| "strict_eq a b = (a = b)"

text \<open>Decimal text of a natural number, as \<open>`${n}`\<close> gives it.\<close>

fun show_nat :: "nat \<Rightarrow> string" where
  "show_nat n =
     (if n < 10 then [''0123456789'' ! n]
      else show_nat (n div 10) @ [''0123456789'' ! (n mod 10)])"

declare show_nat.simps [simp del]

text \<open>\<open>xs.join(sep)\<close> on an array of strings.\<close>

fun join :: "string \<Rightarrow> string list \<Rightarrow> string" where
  "join sep [] = []"
| "join sep [x] = x"
| "join sep (x # y # ys) = x @ sep @ join sep (y # ys)"

section \<open>GET /api/especies: the query builder\<close>

text \<open>
  A value of \<open>req.query\<close>: \<open>None\<close> when the key is absent, otherwise its text (a key
  given once is a string).
\<close>

type_synonym qparam = "string option"

definition q_truthy :: "qparam \<Rightarrow> bool" where
  "q_truthy q = (case q of None \<Rightarrow> False | Some s \<Rightarrow> s \<noteq> [])"

definition q_text :: "qparam \<Rightarrow> string" where
  "q_text q = (case q of None \<Rightarrow> ''undefined'' | Some s \<Rightarrow> s)"

definition q_value :: "qparam \<Rightarrow> jsval" where
  "q_value q = (case q of None \<Rightarrow> JUndefined | Some s \<Rightarrow> JStr s)"

text \<open>The first template literal of the handler, white space included.\<close>

definition tombada_select :: string where
  "tombada_select =
     ''\<newline>      SELECT \<newline>        '' @ [CHR 0x27] @ ''arvore_tombada'' @ [CHR 0x27] @
     '' AS tipo,\<newline>        id,\<newline>        nome_cientifico, \<newline>'' @
     ''        nome_popular,\<newline>        familia,\<newline>        latitude,\<newline>'' @
     ''        longitude,\<newline>        NULL AS altura,\<newline>        NULL AS dap,\<newline>'' @
     ''        rpa\<newline>      FROM arvores_tombadas\<newline>      WHERE 1=1\<newline>    ''"

text \<open>The second template literal: the census branch of the union.\<close>

definition censo_select :: string where
  "censo_select =
     ''\<newline>      UNION ALL\<newline>      SELECT \<newline>        '' @ [CHR 0x27] @ ''censo'' @ [CHR 0x27] @
     '' AS tipo,\<newline>        id,\<newline>        nome_cientifico,\<newline>'' @
     ''        nome_popular,\<newline>        NULL AS familia,\<newline>'' @
     ''        y_wgs84 AS latitude,\<newline>        x_wgs84 AS longitude,\<newline>'' @
     ''        altura,\<newline>        dap,\<newline>        rpa\<newline>'' @
     ''      FROM censo_arboreo\<newline>      WHERE nome_cientifico IS NOT NULL\<newline>    ''"

definition search_cond :: "nat \<Rightarrow> string" where
  "search_cond i =
     ''(nome_popular ILIKE $'' @ show_nat i @ '' OR nome_cientifico ILIKE $'' @ show_nat i @ '')''"

definition familia_cond :: "nat \<Rightarrow> string" where
  "familia_cond i = ''familia = $'' @ show_nat i"

definition rpa_cond :: "nat \<Rightarrow> string" where
  "rpa_cond i = ''rpa = $'' @ show_nat i"

text \<open>
  The body of the handler up to \<open>pool.query(query, params)\<close>: the three variables
  \<open>query\<close>, \<open>params\<close> and \<open>conditions\<close> are threaded through the statements in
  the order of the source. \<open>conditions.length = 0\<close> empties the conditions, while
  \<open>params\<close> keeps growing.
\<close>

definition especies_query :: "qparam \<Rightarrow> qparam \<Rightarrow> qparam \<Rightarrow> string \<times> jsval list" where
  "especies_query search familia rpa =
     (let query = tombada_select;
          params = [];
          conditions = [];
          (conditions, params) =
            (if q_truthy search
             then (conditions @ [search_cond (length params + 1)],
                   params @ [JStr (''%'' @ q_text search @ ''%'')])
             else (conditions, params));
          (conditions, params) =
            (if q_truthy familia
             then (conditions @ [familia_cond (length params + 1)], params @ [q_value familia])
             else (conditions, params));
          (conditions, params) =
            (if q_truthy rpa
             then (conditions @ [rpa_cond (length params + 1)], params @ [q_value rpa])
             else (conditions, params));
          query =
            (if length conditions > 0 then query @ '' AND '' @ join '' AND '' conditions
             else query);
          query = query @ censo_select;
          conditions = [];
          (conditions, params) =
            (if q_truthy search
             then (conditions @ [search_cond (length params + 1)],
                   params @ [JStr (''%'' @ q_text search @ ''%'')])
             else (conditions, params));
          (conditions, params) =
            (if q_truthy rpa
             then (conditions @ [rpa_cond (length params + 1)], params @ [q_value rpa])
             else (conditions, params));
          query =
            (if length conditions > 0 then query @ '' AND '' @ join '' AND '' conditions
             else query);
          query = query @ '' ORDER BY nome_popular''
      in (query, params))"

subsection \<open>The builder as the specification words it\<close>

text \<open>
  A filter is a query value with the condition it contributes (a text with a hole for
  the placeholder index) and the parameter it binds.
\<close>

type_synonym filter_spec = "qparam \<times> (nat \<Rightarrow> string) \<times> jsval"

definition search_filter :: "qparam \<Rightarrow> filter_spec" where
  "search_filter search = (search, search_cond, JStr (''%'' @ q_text search @ ''%''))"

definition familia_filter :: "qparam \<Rightarrow> filter_spec" where
  "familia_filter familia = (familia, familia_cond, q_value familia)"

definition rpa_filter :: "qparam \<Rightarrow> filter_spec" where
  "rpa_filter rpa = (rpa, rpa_cond, q_value rpa)"

text \<open>Only the supplied filters, in the order given.\<close>

definition supplied :: "filter_spec list \<Rightarrow> filter_spec list" where
  "supplied fs = filter (\<lambda>f. q_truthy (fst f)) fs"

text \<open>
  The conditions of a branch, each with \<open>AND\<close> in front, the first placeholder being
  \<open>$(n + 1)\<close> when \<open>n\<close> parameters are already bound.
\<close>

fun and_conditions :: "nat \<Rightarrow> filter_spec list \<Rightarrow> string" where
  "and_conditions n [] = []"
| "and_conditions n (f # fs) = '' AND '' @ fst (snd f) (n + 1) @ and_conditions (n + 1) fs"

definition bound_values :: "filter_spec list \<Rightarrow> jsval list" where
  "bound_values fs = map (\<lambda>f. snd (snd f)) fs"

section \<open>Requests, responses and exceptions\<close>

text \<open>
  \<open>req.body\<close> after \<open>express.json()\<close>: a map from keys to values. Destructuring a key
  that is absent gives \<open>undefined\<close>.
\<close>

type_synonym body = "string \<rightharpoonup> jsval"

definition body_field :: "body \<Rightarrow> string \<Rightarrow> jsval" where
  "body_field b k = (case b k of None \<Rightarrow> JUndefined | Some v \<Rightarrow> v)"

text \<open>\<open>res.status(n).json(v)\<close>; \<open>res.json(v)\<close> alone answers 200.\<close>

datatype response = Response (status: nat) (payload: jsval)

text \<open>A thrown error, with the \<open>message\<close> and \<open>code\<close> the handlers read from it.\<close>

datatype js_error = JsError (err_message: string) (err_code: jsval)

section \<open>What the runtime and the store contribute\<close>

text \<open>
  The handlers call \<open>String.prototype.toLowerCase\<close> and send statements to a store
  whose schema is not part of the source. The model takes what they contribute as a
  parameter and fixes nothing about it:
  \<^item> \<open>lower_case\<close> is \<open>toLowerCase\<close> on texts;
  \<^item> \<open>cast table column v\<close> is the value the column holds once the value \<open>v\<close> (not
    \<open>null\<close>) has been bound to it, in the form in which the driver hands it back: the
    driver sends \<open>v\<close> as text and the type of the column decides how it is read, so that
    for an integer column the number 1 and the text \<open>1\<close> are cast to the same value;
  \<^item> \<open>generated_id n\<close> and \<open>generated_time n\<close> are the id and the time the store
    generates for the command at position \<open>n\<close> of the trace of the request at hand, ids
    as the driver hands them back; they are not kept in the tables, so that a rollback
    does not take them back;
  \<^item> \<open>render_time\<close> is the form in which the driver hands a time back.
\<close>

record platform =
  lower_case :: "string \<Rightarrow> string"
  cast :: "string \<Rightarrow> string \<Rightarrow> jsval \<Rightarrow> jsval"
  generated_id :: "nat \<Rightarrow> jsval"
  generated_time :: "nat \<Rightarrow> nat"
  render_time :: "nat \<Rightarrow> jsval"

text \<open>
  \<open>v.toLowerCase()\<close>: on a value that is not a string the call raises a TypeError.
\<close>

fun js_toLowerCase :: "platform \<Rightarrow> jsval \<Rightarrow> js_error + string" where
  "js_toLowerCase P (JStr s) = Inr (lower_case P s)"
| "js_toLowerCase P v = Inl (JsError ''toLowerCase is not a function'' JUndefined)"

text \<open>\<open>rows[0]\<close>: \<open>undefined\<close> on an empty array.\<close>

fun first_row :: "jsval list \<Rightarrow> jsval" where
  "first_row [] = JUndefined"
| "first_row (r # rs) = r"

text \<open>
  \<open>v.k\<close>: a TypeError on \<open>undefined\<close> and \<open>null\<close>, the field of an object,
  \<open>undefined\<close> when the object has no such field.
\<close>

fun get_prop :: "jsval \<Rightarrow> string \<Rightarrow> js_error + jsval" where
  "get_prop JUndefined k = Inl (JsError ''Cannot read properties of undefined'' JUndefined)"
| "get_prop JNull k = Inl (JsError ''Cannot read properties of null'' JUndefined)"
| "get_prop (JObj fs) k = Inr (case map_of fs k of None \<Rightarrow> JUndefined | Some v \<Rightarrow> v)"
| "get_prop v k = Inr JUndefined"

section \<open>The relational store\<close>

text \<open>
  A column holds \<open>NULL\<close> (\<open>None\<close>) or a value of its type, kept in the form in which the
  driver hands it back. The driver binds \<open>undefined\<close> and \<open>null\<close> as \<open>NULL\<close> and every
  other value through the cast of the column.
\<close>

type_synonym sqlval = "jsval option"

definition pg_bind :: "platform \<Rightarrow> string \<Rightarrow> string \<Rightarrow> jsval \<Rightarrow> sqlval" where
  "pg_bind P table column v =
     (if v = JUndefined \<or> v = JNull then None else Some (cast P table column v))"

text \<open>\<open>column = $n\<close>: never true of \<open>NULL\<close>.\<close>

definition sql_eq :: "sqlval \<Rightarrow> sqlval \<Rightarrow> bool" where
  "sql_eq col p = (col \<noteq> None \<and> col = p)"

text \<open>A column in a result row: \<open>NULL\<close> comes back as \<open>null\<close>.\<close>

definition js_of :: "sqlval \<Rightarrow> jsval" where
  "js_of x = (case x of None \<Rightarrow> JNull | Some v \<Rightarrow> v)"

record user_row =
  u_id :: jsval
  u_username :: sqlval
  u_password :: sqlval

record planta_row =
  p_id :: jsval
  p_nome_cientifico :: sqlval
  p_nome_popular :: sqlval
  p_detalhes :: sqlval
  p_data_plantio :: sqlval
  p_fonte :: sqlval
  p_usuario_id :: sqlval
  p_latitude :: sqlval
  p_longitude :: sqlval
  p_created_at :: nat

record room_row =
  r_id :: jsval
  r_name :: sqlval
  r_description :: sqlval
  r_creator_id :: sqlval
  r_created_at :: nat

record message_row =
  m_id :: jsval
  m_room_id :: sqlval
  m_sender_id :: sqlval
  m_content :: sqlval
  m_timestamp :: nat

record db =
  users :: "user_row list"
  plantas :: "planta_row list"
  rooms :: "room_row list"
  room_members :: "(sqlval \<times> sqlval) list"
  messages :: "message_row list"

text \<open>Rows as the driver hands them to the handler.\<close>

definition user_json :: "user_row \<Rightarrow> jsval" where
  "user_json r =
     JObj [(''id'', u_id r), (''username'', js_of (u_username r)),
           (''password'', js_of (u_password r))]"

definition planta_json :: "platform \<Rightarrow> planta_row \<Rightarrow> jsval" where
  "planta_json P r =
     JObj [(''id'', p_id r),
           (''nome_cientifico'', js_of (p_nome_cientifico r)),
           (''nome_popular'', js_of (p_nome_popular r)),
           (''detalhes'', js_of (p_detalhes r)),
           (''data_plantio'', js_of (p_data_plantio r)),
           (''fonte'', js_of (p_fonte r)),
           (''usuario_id'', js_of (p_usuario_id r)),
           (''latitude'', js_of (p_latitude r)),
           (''longitude'', js_of (p_longitude r)),
           (''created_at'', render_time P (p_created_at r))]"

definition room_json :: "platform \<Rightarrow> room_row \<Rightarrow> jsval" where
  "room_json P r =
     JObj [(''id'', r_id r), (''name'', js_of (r_name r)),
           (''description'', js_of (r_description r)),
           (''creator_id'', js_of (r_creator_id r)),
           (''created_at'', render_time P (r_created_at r))]"

definition message_json :: "platform \<Rightarrow> message_row \<Rightarrow> jsval" where
  "message_json P r =
     JObj [(''id'', m_id r), (''room_id'', js_of (m_room_id r)),
           (''sender_id'', js_of (m_sender_id r)), (''content'', js_of (m_content r)),
           (''timestamp'', render_time P (m_timestamp r))]"

text \<open>
  The statements the handlers send, each with its bound parameters:
  \<^item> \<open>SelectUserId\<close>: \<^verbatim>\<open>SELECT id FROM users WHERE username = $1\<close>
  \<^item> \<open>SelectUser\<close>: \<^verbatim>\<open>SELECT id, username, password FROM users WHERE username = $1\<close>
  \<^item> \<open>InsertUser\<close>:
    \<^verbatim>\<open>INSERT INTO users (username, password) VALUES ($1, $2) RETURNING id, username\<close>
  \<^item> \<open>InsertPlanta\<close>: \<^verbatim>\<open>INSERT INTO plantas (...) VALUES ($1, ..., $8) RETURNING *\<close>
  \<^item> \<open>InsertRoom\<close>:
    \<^verbatim>\<open>INSERT INTO rooms (name, description, creator_id) VALUES ($1, $2, $3) RETURNING *\<close>
  \<^item> \<open>InsertMember\<close>: \<^verbatim>\<open>INSERT INTO room_members (room_id, user_id) VALUES ($1, $2)\<close>
  \<^item> \<open>SelectMember\<close>: \<^verbatim>\<open>SELECT 1 FROM room_members WHERE room_id = $1 AND user_id = $2\<close>
  \<^item> \<open>SelectMessages\<close>:
    \<^verbatim>\<open>SELECT * FROM messages WHERE room_id = $1 ORDER BY timestamp DESC LIMIT $2\<close>,
    the limit being the integer the store reads from the parameter
  \<^item> \<open>InsertMessage\<close>:
    \<^verbatim>\<open>INSERT INTO messages (room_id, sender_id, content) VALUES ($1, $2, $3) RETURNING *\<close>
\<close>

datatype stmt =
    SelectUserId jsval
  | SelectUser jsval
  | InsertUser jsval jsval
  | InsertPlanta jsval jsval jsval jsval jsval jsval jsval jsval
  | InsertRoom jsval jsval jsval
  | InsertMember jsval jsval
  | SelectMember jsval jsval
  | SelectMessages jsval int
  | InsertMessage jsval jsval jsval

text \<open>\<open>ORDER BY timestamp DESC\<close>: the reverse of the chronological order.\<close>

definition newest_first :: "message_row list \<Rightarrow> message_row list" where
  "newest_first ms = rev (sort_key m_timestamp ms)"

definition room_messages :: "platform \<Rightarrow> jsval \<Rightarrow> db \<Rightarrow> message_row list" where
  "room_messages P room d =
     filter (\<lambda>m. sql_eq (m_room_id m) (pg_bind P ''messages'' ''room_id'' room)) (messages d)"

definition is_member :: "platform \<Rightarrow> jsval \<Rightarrow> jsval \<Rightarrow> sqlval \<times> sqlval \<Rightarrow> bool" where
  "is_member P room user row =
     (sql_eq (fst row) (pg_bind P ''room_members'' ''room_id'' room) \<and>
      sql_eq (snd row) (pg_bind P ''room_members'' ''user_id'' user))"

text \<open>
  What the statement at position \<open>n\<close> of the trace returns and how it changes the
  tables.
\<close>

fun exec_stmt :: "platform \<Rightarrow> nat \<Rightarrow> stmt \<Rightarrow> db \<Rightarrow> js_error + (jsval list \<times> db)" where
  "exec_stmt P n (SelectUserId name) d =
     Inr (map (\<lambda>r. JObj [(''id'', u_id r)])
            (filter (\<lambda>r. sql_eq (u_username r) (pg_bind P ''users'' ''username'' name))
               (users d)), d)"
| "exec_stmt P n (SelectUser name) d =
     Inr (map user_json
            (filter (\<lambda>r. sql_eq (u_username r) (pg_bind P ''users'' ''username'' name))
               (users d)), d)"
| "exec_stmt P n (InsertUser name pw) d =
     (let r = \<lparr>u_id = generated_id P n,
                u_username = pg_bind P ''users'' ''username'' name,
                u_password = pg_bind P ''users'' ''password'' pw\<rparr>
      in Inr ([JObj [(''id'', u_id r), (''username'', js_of (u_username r))]],
              d\<lparr>users := users d @ [r]\<rparr>))"
| "exec_stmt P n (InsertPlanta nc np det dp fo us la lo) d =
     (let r = \<lparr>p_id = generated_id P n,
                p_nome_cientifico = pg_bind P ''plantas'' ''nome_cientifico'' nc,
                p_nome_popular = pg_bind P ''plantas'' ''nome_popular'' np,
                p_detalhes = pg_bind P ''plantas'' ''detalhes'' det,
                p_data_plantio = pg_bind P ''plantas'' ''data_plantio'' dp,
                p_fonte = pg_bind P ''plantas'' ''fonte'' fo,
                p_usuario_id = pg_bind P ''plantas'' ''usuario_id'' us,
                p_latitude = pg_bind P ''plantas'' ''latitude'' la,
                p_longitude = pg_bind P ''plantas'' ''longitude'' lo,
                p_created_at = generated_time P n\<rparr>
      in Inr ([planta_json P r], d\<lparr>plantas := plantas d @ [r]\<rparr>))"
| "exec_stmt P n (InsertRoom name descr creator) d =
     (let r = \<lparr>r_id = generated_id P n,
                r_name = pg_bind P ''rooms'' ''name'' name,
                r_description = pg_bind P ''rooms'' ''description'' descr,
                r_creator_id = pg_bind P ''rooms'' ''creator_id'' creator,
                r_created_at = generated_time P n\<rparr>
      in Inr ([room_json P r], d\<lparr>rooms := rooms d @ [r]\<rparr>))"
| "exec_stmt P n (InsertMember room user) d =
     Inr ([], d\<lparr>room_members := room_members d @
                 [(pg_bind P ''room_members'' ''room_id'' room,
                   pg_bind P ''room_members'' ''user_id'' user)]\<rparr>)"
| "exec_stmt P n (SelectMember room user) d =
     Inr (map (\<lambda>row. JObj [(''?column?'', JNum 1)])
            (filter (is_member P room user) (room_members d)), d)"
| "exec_stmt P n (SelectMessages room k) d =
     (if k < 0 then Inl (JsError ''LIMIT must not be negative'' (JStr ''2201W''))
      else Inr (map (message_json P) (take (nat k) (newest_first (room_messages P room d))), d))"
| "exec_stmt P n (InsertMessage room sender content) d =
     (let r = \<lparr>m_id = generated_id P n,
                m_room_id = pg_bind P ''messages'' ''room_id'' room,
                m_sender_id = pg_bind P ''messages'' ''sender_id'' sender,
                m_content = pg_bind P ''messages'' ''content'' content,
                m_timestamp = generated_time P n\<rparr>
      in Inr ([message_json P r], d\<lparr>messages := messages d @ [r]\<rparr>))"

subsection \<open>Connections and transactions\<close>

text \<open>
  What a handler asks of the pool and of a client, in the order it asks: checking a
  client out (\<open>pool.connect()\<close>), \<open>BEGIN\<close>, \<open>COMMIT\<close>, \<open>ROLLBACK\<close>, a statement, and
  \<open>client.release()\<close>.
\<close>

datatype cmd = Connect | Begin | Commit | Rollback | Query stmt | Release

text \<open>
  The store as one request sees it: the committed tables, the tables as the open
  transaction sees them (\<open>None\<close> when no transaction is open), and the commands issued so
  far. What the store generates (ids, times) is not part of the tables, so that a
  rollback does not take it back.
\<close>

record store =
  durable :: db
  txn :: "db option"
  trace :: "cmd list"

definition fresh :: "db \<Rightarrow> store" where
  "fresh d = \<lparr>durable = d, txn = None, trace = []\<rparr>"

definition view :: "store \<Rightarrow> db" where
  "view s = (case txn s of None \<Rightarrow> durable s | Some d \<Rightarrow> d)"

text \<open>
  A command that succeeds, at position \<open>n\<close> of the trace. A statement outside a
  transaction commits at once; inside one it changes the transaction's view only, which
  \<open>COMMIT\<close> makes durable and \<open>ROLLBACK\<close> discards.
\<close>

fun run_cmd :: "platform \<Rightarrow> nat \<Rightarrow> cmd \<Rightarrow> store \<Rightarrow> (js_error + jsval list) \<times> store" where
  "run_cmd P n Connect s = (Inr [], s)"
| "run_cmd P n Begin s = (Inr [], s\<lparr>txn := Some (view s)\<rparr>)"
| "run_cmd P n Commit s = (Inr [], s\<lparr>durable := view s, txn := None\<rparr>)"
| "run_cmd P n Rollback s = (Inr [], s\<lparr>txn := None\<rparr>)"
| "run_cmd P n Release s = (Inr [], s)"
| "run_cmd P n (Query q) s =
     (case exec_stmt P n q (view s) of
        Inl e \<Rightarrow> (Inl e, s)
      | Inr (rows, d) \<Rightarrow>
          (Inr rows, case txn s of None \<Rightarrow> s\<lparr>durable := d\<rparr> | Some t \<Rightarrow> s\<lparr>txn := Some d\<rparr>))"

text \<open>
  The store may fail at any command, for any reason (a connection lost, a parameter the
  column's type rejects, a constraint): \<open>F n\<close> is the error raised by the command issued
  at position \<open>n\<close> of the trace, if it raises one. A command that raises leaves the
  tables as they were.
\<close>

type_synonym faults = "nat \<Rightarrow> js_error option"

definition no_faults :: faults where
  "no_faults = (\<lambda>n. None)"

definition issue ::
  "platform \<Rightarrow> faults \<Rightarrow> cmd \<Rightarrow> store \<Rightarrow> (js_error + jsval list) \<times> store" where
  "issue P F c s =
     (let s' = s\<lparr>trace := trace s @ [c]\<rparr>
      in case F (length (trace s)) of
           Some e \<Rightarrow> (Inl e, s')
         | None \<Rightarrow> run_cmd P (length (trace s)) c s')"

text \<open>\<open>client.release()\<close> does not go to the store.\<close>

definition release :: "store \<Rightarrow> store" where
  "release s = s\<lparr>trace := trace s @ [Release]\<rparr>"

text \<open>
  \<open>await\<close> after \<open>await\<close> inside a \<open>try\<close>: the first error ends the block, with the
  store as it was when the error was raised.
\<close>

definition and_then ::
  "(js_error + 'a) \<times> store \<Rightarrow> ('a \<Rightarrow> store \<Rightarrow> (js_error + 'b) \<times> store) \<Rightarrow>
   (js_error + 'b) \<times> store" where
  "and_then m k = (case m of (Inl e, s) \<Rightarrow> (Inl e, s) | (Inr x, s) \<Rightarrow> k x s)"

section \<open>The handlers\<close>

text \<open>
  A handler takes the platform, the faults of the store, the request and the store, and gives the
  response it sends (\<open>None\<close> when it ends in a rejection before sending one) and the
  store it leaves.
\<close>

text \<open>The accented letters of the messages, in UTF-8.\<close>

definition a_acute :: string where "a_acute = [CHR 0xC3, CHR 0xA1]"
definition a_tilde :: string where "a_tilde = [CHR 0xC3, CHR 0xA3]"
definition i_acute :: string where "i_acute = [CHR 0xC3, CHR 0xAD]"
definition o_acute :: string where "o_acute = [CHR 0xC3, CHR 0xB3]"

definition failure :: "string \<Rightarrow> jsval" where
  "failure msg = JObj [(''success'', JBool False), (''message'', JStr msg)]"

definition error_only :: "string \<Rightarrow> jsval" where
  "error_only msg = JObj [(''error'', JStr msg)]"

definition credentials_required :: string where
  "credentials_required =
     ''Username e senha s'' @ a_tilde @ ''o obrigat'' @ o_acute @ ''rios''"

definition username_taken :: string where
  "username_taken = ''Username j'' @ a_acute @ '' est'' @ a_acute @ '' em uso''"

definition register_failed :: string where
  "register_failed = ''Erro ao registrar usu'' @ a_acute @ ''rio''"

definition user_not_found :: string where
  "user_not_found = ''Usu'' @ a_acute @ ''rio n'' @ a_tilde @ ''o encontrado''"

subsection \<open>POST /api/auth/register\<close>

text \<open>The \<open>try\<close> block: its value is the response it sends, or the error it throws.\<close>

definition register_try ::
  "platform \<Rightarrow> faults \<Rightarrow> jsval \<Rightarrow> jsval \<Rightarrow> store \<Rightarrow> (js_error + response) \<times> store" where
  "register_try P F username password s0 =
     and_then (issue P F Begin s0) (\<lambda>_ s.
     and_then (js_toLowerCase P username, s) (\<lambda>lowered s.
     and_then (issue P F (Query (SelectUserId (JStr lowered))) s) (\<lambda>userCheck s.
       if length userCheck > 0
       then (Inr (Response 400 (failure username_taken)), s)
       else
     and_then (js_toLowerCase P username, s) (\<lambda>lowered s.
     and_then (issue P F (Query (InsertUser (JStr lowered) password)) s) (\<lambda>userResult s.
     and_then (issue P F Commit s) (\<lambda>_ s.
       (Inr (Response 201
               (JObj [(''success'', JBool True), (''user'', first_row userResult)])), s)))))))"

definition register :: "platform \<Rightarrow> faults \<Rightarrow> body \<Rightarrow> store \<Rightarrow> response option \<times> store" where
  "register P F b s0 =
     (let username = body_field b ''username'';
          password = body_field b ''password''
      in if \<not> truthy username \<or> \<not> truthy password
         then (Some (Response 400 (failure credentials_required)), s0)
         else
           (case issue P F Connect s0 of
              (Inl e, s) \<Rightarrow> (None, s)
            | (Inr client, s) \<Rightarrow>
                (let (sent, s) =
                       (case register_try P F username password s of
                          (Inr r, s) \<Rightarrow> (Some r, s)
                        | (Inl err, s) \<Rightarrow>
                            (case issue P F Rollback s of
                               (Inl e, s) \<Rightarrow> (None, s)
                             | (Inr _, s) \<Rightarrow>
                                 (Some (Response 500 (failure register_failed)), s)))
                 in (sent, release s))))"

subsection \<open>POST /api/auth/login\<close>

definition login_try ::
  "platform \<Rightarrow> faults \<Rightarrow> jsval \<Rightarrow> jsval \<Rightarrow> store \<Rightarrow> (js_error + response) \<times> store" where
  "login_try P F username password s0 =
     and_then (js_toLowerCase P username, s0) (\<lambda>lowered s.
     and_then (issue P F (Query (SelectUser (JStr lowered))) s) (\<lambda>rows s.
       if length rows = 0
       then (Inr (Response 404 (failure user_not_found)), s)
       else
         (let user = first_row rows in
     and_then (get_prop user ''password'', s) (\<lambda>stored s.
       if \<not> strict_eq password stored
       then (Inr (Response 401 (failure ''Senha incorreta'')), s)
       else
     and_then (get_prop user ''id'', s) (\<lambda>uid s.
     and_then (get_prop user ''username'', s) (\<lambda>uname s.
       (Inr (Response 200
               (JObj [(''success'', JBool True),
                      (''message'', JStr ''Login bem-sucedido''),
                      (''user'', JObj [(''id'', uid), (''username'', uname)])])), s)))))))"

definition login :: "platform \<Rightarrow> faults \<Rightarrow> body \<Rightarrow> store \<Rightarrow> response option \<times> store" where
  "login P F b s0 =
     (let username = body_field b ''username'';
          password = body_field b ''password''
      in if \<not> truthy username \<or> \<not> truthy password
         then (Some (Response 400 (failure credentials_required)), s0)
         else
           (case login_try P F username password s0 of
              (Inr r, s) \<Rightarrow> (Some r, s)
            | (Inl err, s) \<Rightarrow>
                (Some (Response 500 (failure ''Erro interno ao processar login'')), s)))"

subsection \<open>POST /api/plants\<close>

definition name_required :: string where
  "name_required =
     ''Pelo menos o nome cient'' @ i_acute @ ''fico ou popular deve ser fornecido''"

definition coordinates_required :: string where
  "coordinates_required =
     ''Coordenadas geogr'' @ a_acute @ ''ficas s'' @ a_tilde @ ''o obrigat'' @ o_acute @ ''rias''"

definition create_plant :: "platform \<Rightarrow> faults \<Rightarrow> body \<Rightarrow> store \<Rightarrow> response option \<times> store" where
  "create_plant P F b s0 =
     (let nome_cientifico = body_field b ''nome_cientifico'';
          nome_popular = body_field b ''nome_popular'';
          detalhes = body_field b ''detalhes'';
          data_plantio = body_field b ''data_plantio'';
          fonte = body_field b ''fonte'';
          usuario_id = body_field b ''usuario_id'';
          latitude = body_field b ''latitude'';
          longitude = body_field b ''longitude''
      in if \<not> truthy nome_cientifico \<and> \<not> truthy nome_popular
         then (Some (Response 400 (failure name_required)), s0)
         else if \<not> truthy latitude \<or> \<not> truthy longitude
         then (Some (Response 400 (failure coordinates_required)), s0)
         else
           (case issue P F (Query (InsertPlanta (or_null nome_cientifico) (or_null nome_popular)
                                   (or_null detalhes) (or_null data_plantio) (or_null fonte)
                                   (or_null usuario_id) latitude longitude)) s0 of
              (Inr rows, s) \<Rightarrow>
                (Some (Response 201
                   (JObj [(''success'', JBool True), (''plant'', first_row rows),
                          (''message'', JStr ''Planta cadastrada com sucesso'')])), s)
            | (Inl err, s) \<Rightarrow>
                (Some (Response 500
                   (JObj [(''success'', JBool False),
                          (''message'', JStr ''Erro ao cadastrar planta''),
                          (''error'', JStr (err_message err))])), s)))"

subsection \<open>POST /api/rooms\<close>

definition create_room_try ::
  "platform \<Rightarrow> faults \<Rightarrow> jsval \<Rightarrow> jsval \<Rightarrow> jsval \<Rightarrow> store \<Rightarrow> (js_error + response) \<times> store" where
  "create_room_try P F name description creator_id s0 =
     and_then (issue P F Begin s0) (\<lambda>_ s.
     and_then (issue P F (Query (InsertRoom name description creator_id)) s) (\<lambda>roomResult s.
     and_then (get_prop (first_row roomResult) ''id'', s) (\<lambda>room_id s.
     and_then (issue P F (Query (InsertMember room_id creator_id)) s) (\<lambda>_ s.
     and_then (issue P F Commit s) (\<lambda>_ s.
       (Inr (Response 201 (first_row roomResult)), s))))))"

definition create_room :: "platform \<Rightarrow> faults \<Rightarrow> body \<Rightarrow> store \<Rightarrow> response option \<times> store" where
  "create_room P F b s0 =
     (let name = body_field b ''name'';
          description = body_field b ''description'';
          creator_id = body_field b ''creator_id''
      in if \<not> truthy name \<or> \<not> truthy creator_id
         then (Some (Response 400 (error_only ''Name and creator ID are required'')), s0)
         else
           (case issue P F Connect s0 of
              (Inl e, s) \<Rightarrow> (None, s)
            | (Inr client, s) \<Rightarrow>
                (let (sent, s) =
                       (case create_room_try P F name description creator_id s of
                          (Inr r, s) \<Rightarrow> (Some r, s)
                        | (Inl err, s) \<Rightarrow>
                            (case issue P F Rollback s of
                               (Inl e, s) \<Rightarrow> (None, s)
                             | (Inr _, s) \<Rightarrow>
                                 (Some (Response 500
                                    (JObj [(''error'', JStr ''Database operation failed''),
                                           (''details'', JStr (err_message err)),
                                           (''code'', err_code err)])), s)))
                 in (sent, release s))))"

subsection \<open>GET /api/rooms/:roomId/messages\<close>

text \<open>
  \<open>roomId\<close> is the text of the path segment; \<open>limit\<close> is \<open>req.query.limit\<close> as the
  integer the store reads it as, \<open>None\<close> when the query has no such key.
\<close>

definition list_messages ::
  "platform \<Rightarrow> faults \<Rightarrow> string \<Rightarrow> int option \<Rightarrow> store \<Rightarrow> response option \<times> store" where
  "list_messages P F roomId limit_param s0 =
     (let limit = (case limit_param of None \<Rightarrow> 50 | Some n \<Rightarrow> n)
      in case issue P F (Query (SelectMessages (JStr roomId) limit)) s0 of
           (Inr rows, s) \<Rightarrow> (Some (Response 200 (JArr (rev rows))), s)
         | (Inl err, s) \<Rightarrow>
             (Some (Response 500 (error_only ''Failed to fetch messages'')), s))"

subsection \<open>POST /api/rooms/:roomId/messages\<close>

definition send_message ::
  "platform \<Rightarrow> faults \<Rightarrow> string \<Rightarrow> body \<Rightarrow> store \<Rightarrow> response option \<times> store" where
  "send_message P F roomId b s0 =
     (let sender_id = body_field b ''sender_id'';
          content = body_field b ''content''
      in if \<not> truthy sender_id \<or> \<not> truthy content
         then (Some (Response 400 (error_only ''Sender ID and content are required'')), s0)
         else
           (case and_then (issue P F (Query (SelectMember (JStr roomId) sender_id)) s0)
                   (\<lambda>memberCheck s.
                      if length memberCheck = 0
                      then (Inr (Response 403 (error_only ''User is not a member of this room'')), s)
                      else
                        and_then (issue P F (Query (InsertMessage (JStr roomId) sender_id content)) s)
                          (\<lambda>rows s. (Inr (Response 201 (first_row rows)), s))) of
              (Inr r, s) \<Rightarrow> (Some r, s)
            | (Inl err, s) \<Rightarrow>
                (Some (Response 500 (error_only ''Failed to send message'')), s)))"

subsection \<open>POST /api/rooms/:roomId/join\<close>

definition join_room ::
  "platform \<Rightarrow> faults \<Rightarrow> string \<Rightarrow> body \<Rightarrow> store \<Rightarrow> response option \<times> store" where
  "join_room P F roomId b s0 =
     (let user_id = body_field b ''user_id''
      in if \<not> truthy user_id
         then (Some (Response 400 (error_only ''User ID is required'')), s0)
         else
           (case and_then (issue P F (Query (SelectMember (JStr roomId) user_id)) s0)
                   (\<lambda>existingMember s.
                      if length existingMember > 0
                      then (Inr (Response 200
                                   (JObj [(''message'', JStr ''User is already a member'')])), s)
                      else
                        and_then (issue P F (Query (InsertMember (JStr roomId) user_id)) s)
                          (\<lambda>_ s. (Inr (Response 200
                                           (JObj [(''message'', JStr ''Successfully joined room'')])),
                                    s))) of
              (Inr r, s) \<Rightarrow> (Some r, s)
            | (Inl err, s) \<Rightarrow>
                (Some (Response 500 (error_only ''Failed to join room'')), s)))"

section \<open>The message listing as the specification words it\<close>

text \<open>The messages oldest first, and the \<open>n\<close> most recent of them, oldest first.\<close>

definition chronological :: "message_row list \<Rightarrow> message_row list" where
  "chronological ms = sort_key m_timestamp ms"

definition most_recent :: "nat \<Rightarrow> message_row list \<Rightarrow> message_row list" where
  "most_recent n ms = drop (length ms - n) (chronological ms)"

section \<open>Membership as the specification words it\<close>

text \<open>
  The \<open>room_members\<close> row of a room, named by the text of the path segment, and a user,
  named by the value of the request: both as the columns hold them.
\<close>

definition member_row :: "platform \<Rightarrow> string \<Rightarrow> jsval \<Rightarrow> sqlval \<times> sqlval" where
  "member_row P roomId user =
     (pg_bind P ''room_members'' ''room_id'' (JStr roomId),
      pg_bind P ''room_members'' ''user_id'' user)"

text \<open>The username of a request as the \<open>username\<close> column holds it: lowercased, then cast.\<close>

definition stored_username :: "platform \<Rightarrow> string \<Rightarrow> sqlval" where
  "stored_username P u = pg_bind P ''users'' ''username'' (JStr (lower_case P u))"

section \<open>A platform and stores for the examples\<close>

text \<open>
  The examples run on one platform. Its \<open>toLowerCase\<close> is given by its values at the
  usernames the examples use, one of them with an accented capital (\<open>E\<close> acute, in
  UTF-8).
\<close>

definition E_acute :: string where "E_acute = [CHR 0xC3, CHR 0x89]"
definition e_acute :: string where "e_acute = [CHR 0xC3, CHR 0xA9]"

definition example_lower :: "string \<Rightarrow> string" where
  "example_lower s =
     (case map_of [(''Bob'', ''bob''), (''BOB'', ''bob''), (''Alice'', ''alice''),
                   (E_acute @ ''RICA'', e_acute @ ''rica'')] s of
        None \<Rightarrow> s
      | Some l \<Rightarrow> l)"

text \<open>
  Its id columns are integers, read from a number as it is and from a text of decimal
  digits as the number it denotes; its other columns keep a text as it is.
\<close>

definition digit_value :: "char \<Rightarrow> nat option" where
  "digit_value c = map_of (zip ''0123456789'' [0, 1, 2, 3, 4, 5, 6, 7, 8, 9]) c"

fun read_digits :: "nat \<Rightarrow> string \<Rightarrow> nat option" where
  "read_digits acc [] = Some acc"
| "read_digits acc (c # cs) =
     (case digit_value c of None \<Rightarrow> None | Some v \<Rightarrow> read_digits (10 * acc + v) cs)"

definition example_cast :: "string \<Rightarrow> string \<Rightarrow> jsval \<Rightarrow> jsval" where
  "example_cast table column v =
     (if column \<in> set [''room_id'', ''user_id'', ''sender_id'', ''creator_id'', ''usuario_id'']
      then (case v of
              JStr s \<Rightarrow>
                (case (if s = [] then None else read_digits 0 s) of
                   None \<Rightarrow> v
                 | Some k \<Rightarrow> JNum (of_nat k))
            | _ \<Rightarrow> v)
      else v)"

definition example_platform :: platform where
  "example_platform =
     \<lparr>lower_case = example_lower, cast = example_cast,
      generated_id = (\<lambda>n. JNum (of_nat (100 + n))),
      generated_time = (\<lambda>n. 1000 + n),
      render_time = (\<lambda>t. JNum (of_nat t))\<rparr>"

definition empty_db :: db where
  "empty_db = \<lparr>users = [], plantas = [], rooms = [], room_members = [], messages = []\<rparr>"

text \<open>Two registered users, \<open>bob\<close> and \<open>erica\<close> with an acute accent on the \<open>e\<close>.\<close>

definition db_bob :: db where
  "db_bob =
     empty_db\<lparr>users :=
       [\<lparr>u_id = JNum 1, u_username = Some (JStr ''bob''), u_password = Some (JStr ''secret'')\<rparr>,
        \<lparr>u_id = JNum 2, u_username = Some (JStr (e_acute @ ''rica'')),
         u_password = Some (JStr ''segredo'')\<rparr>]\<rparr>"

text \<open>
  Room 7 with five messages, stored out of chronological order, one message of
  another room, and user 1 as the only member of room 7.
\<close>

definition msg :: "int \<Rightarrow> int \<Rightarrow> nat \<Rightarrow> message_row" where
  "msg i room t =
     \<lparr>m_id = JNum (of_int i), m_room_id = Some (JNum (of_int room)),
      m_sender_id = Some (JNum 1), m_content = Some (JStr ''oi''), m_timestamp = t\<rparr>"

definition db_forum :: db where
  "db_forum =
     db_bob\<lparr>room_members := [(Some (JNum 7), Some (JNum 1))],
            messages := [msg 1 7 30, msg 2 7 10, msg 3 8 60, msg 4 7 50, msg 5 7 20, msg 6 7 40]\<rparr>"

section \<open>Properties of the query builder\<close>

text \<open>
  Claim C4. For every combination of the optional inputs the builder returns
  \<^item> the \<open>SELECT\<close> on \<open>arvores_tombadas\<close>, ending in \<open>WHERE 1=1\<close>;
  \<^item> one \<open>AND\<close>-condition for each supplied input in the order search, familia, rpa, the
    placeholders numbered from \<open>$1\<close> by the length of the parameter list;
  \<^item> \<open>UNION ALL\<close> and the \<open>SELECT\<close> on \<open>censo_arboreo\<close>, ending in
    \<open>WHERE nome_cientifico IS NOT NULL\<close>;
  \<^item> one \<open>AND\<close>-condition for search and for rpa, never for familia, numbered on from
    the parameters already bound;
  \<^item> \<open>ORDER BY nome_popular\<close>;

  and, as parameters, the values of the first branch followed by those of the second.
  The statement is written out for all three inputs supplied (placeholders \<open>$1\<close>,
  \<open>$2\<close>, \<open>$3\<close>, then \<open>$4\<close>, \<open>$5\<close>) and for familia alone.
\<close>

theorem especies_query_structure:
  "especies_query search familia rpa =
     (''\<newline>      SELECT \<newline>        '' @ [CHR 0x27] @ ''arvore_tombada'' @ [CHR 0x27] @
      '' AS tipo,\<newline>        id,\<newline>        nome_cientifico, \<newline>'' @
      ''        nome_popular,\<newline>        familia,\<newline>        latitude,\<newline>'' @
      ''        longitude,\<newline>        NULL AS altura,\<newline>        NULL AS dap,\<newline>'' @
      ''        rpa\<newline>      FROM arvores_tombadas\<newline>      WHERE 1=1\<newline>    '' @
      and_conditions 0
        (supplied [search_filter search, familia_filter familia, rpa_filter rpa]) @
      ''\<newline>      UNION ALL\<newline>      SELECT \<newline>        '' @ [CHR 0x27] @ ''censo'' @ [CHR 0x27] @
      '' AS tipo,\<newline>        id,\<newline>        nome_cientifico,\<newline>'' @
      ''        nome_popular,\<newline>        NULL AS familia,\<newline>'' @
      ''        y_wgs84 AS latitude,\<newline>        x_wgs84 AS longitude,\<newline>'' @
      ''        altura,\<newline>        dap,\<newline>        rpa\<newline>'' @
      ''      FROM censo_arboreo\<newline>      WHERE nome_cientifico IS NOT NULL\<newline>    '' @
      and_conditions
        (length (supplied [search_filter search, familia_filter familia, rpa_filter rpa]))
        (supplied [search_filter search, rpa_filter rpa]) @
      '' ORDER BY nome_popular'',
      bound_values (supplied [search_filter search, familia_filter familia, rpa_filter rpa]) @
      bound_values (supplied [search_filter search, rpa_filter rpa])) \<and>
   especies_query (Some ''ipe'') (Some ''Bignoniaceae'') (Some ''3'') =
     (''\<newline>      SELECT \<newline>        '' @ [CHR 0x27] @ ''arvore_tombada'' @ [CHR 0x27] @
      '' AS tipo,\<newline>        id,\<newline>        nome_cientifico, \<newline>'' @
      ''        nome_popular,\<newline>        familia,\<newline>        latitude,\<newline>'' @
      ''        longitude,\<newline>        NULL AS altura,\<newline>        NULL AS dap,\<newline>'' @
      ''        rpa\<newline>      FROM arvores_tombadas\<newline>      WHERE 1=1\<newline>    '' @
      '' AND (nome_popular ILIKE $1 OR nome_cientifico ILIKE $1) AND familia = $2 AND rpa = $3'' @
      ''\<newline>      UNION ALL\<newline>      SELECT \<newline>        '' @ [CHR 0x27] @ ''censo'' @ [CHR 0x27] @
      '' AS tipo,\<newline>        id,\<newline>        nome_cientifico,\<newline>'' @
      ''        nome_popular,\<newline>        NULL AS familia,\<newline>'' @
      ''        y_wgs84 AS latitude,\<newline>        x_wgs84 AS longitude,\<newline>'' @
      ''        altura,\<newline>        dap,\<newline>        rpa\<newline>'' @
      ''      FROM censo_arboreo\<newline>      WHERE nome_cientifico IS NOT NULL\<newline>    '' @
      '' AND (nome_popular ILIKE $4 OR nome_cientifico ILIKE $4) AND rpa = $5'' @
      '' ORDER BY nome_popular'',
      [JStr ''%ipe%'', JStr ''Bignoniaceae'', JStr ''3'', JStr ''%ipe%'', JStr ''3'']) \<and>
   especies_query None (Some ''Bignoniaceae'') None =
     (''\<newline>      SELECT \<newline>        '' @ [CHR 0x27] @ ''arvore_tombada'' @ [CHR 0x27] @
      '' AS tipo,\<newline>        id,\<newline>        nome_cientifico, \<newline>'' @
      ''        nome_popular,\<newline>        familia,\<newline>        latitude,\<newline>'' @
      ''        longitude,\<newline>        NULL AS altura,\<newline>        NULL AS dap,\<newline>'' @
      ''        rpa\<newline>      FROM arvores_tombadas\<newline>      WHERE 1=1\<newline>    '' @
      '' AND familia = $1'' @
      ''\<newline>      UNION ALL\<newline>      SELECT \<newline>        '' @ [CHR 0x27] @ ''censo'' @ [CHR 0x27] @
      '' AS tipo,\<newline>        id,\<newline>        nome_cientifico,\<newline>'' @
      ''        nome_popular,\<newline>        NULL AS familia,\<newline>'' @
      ''        y_wgs84 AS latitude,\<newline>        x_wgs84 AS longitude,\<newline>'' @
      ''        altura,\<newline>        dap,\<newline>        rpa\<newline>'' @
      ''      FROM censo_arboreo\<newline>      WHERE nome_cientifico IS NOT NULL\<newline>    '' @
      '' ORDER BY nome_popular'',
      [JStr ''Bignoniaceae''])"
proof (intro conjI)
  show "especies_query search familia rpa =
     (''\<newline>      SELECT \<newline>        '' @ [CHR 0x27] @ ''arvore_tombada'' @ [CHR 0x27] @
      '' AS tipo,\<newline>        id,\<newline>        nome_cientifico, \<newline>'' @
      ''        nome_popular,\<newline>        familia,\<newline>        latitude,\<newline>'' @
      ''        longitude,\<newline>        NULL AS altura,\<newline>        NULL AS dap,\<newline>'' @
      ''        rpa\<newline>      FROM arvores_tombadas\<newline>      WHERE 1=1\<newline>    '' @
      and_conditions 0
        (supplied [search_filter search, familia_filter familia, rpa_filter rpa]) @
      ''\<newline>      UNION ALL\<newline>      SELECT \<newline>        '' @ [CHR 0x27] @ ''censo'' @ [CHR 0x27] @
      '' AS tipo,\<newline>        id,\<newline>        nome_cientifico,\<newline>'' @
      ''        nome_popular,\<newline>        NULL AS familia,\<newline>'' @
      ''        y_wgs84 AS latitude,\<newline>        x_wgs84 AS longitude,\<newline>'' @
      ''        altura,\<newline>        dap,\<newline>        rpa\<newline>'' @
      ''      FROM censo_arboreo\<newline>      WHERE nome_cientifico IS NOT NULL\<newline>    '' @
      and_conditions
        (length (supplied [search_filter search, familia_filter familia, rpa_filter rpa]))
        (supplied [search_filter search, rpa_filter rpa]) @
      '' ORDER BY nome_popular'',
      bound_values (supplied [search_filter search, familia_filter familia, rpa_filter rpa]) @
      bound_values (supplied [search_filter search, rpa_filter rpa]))"
    by (cases "q_truthy search"; cases "q_truthy familia"; cases "q_truthy rpa")
       (simp_all add: especies_query_def supplied_def bound_values_def search_filter_def
          familia_filter_def rpa_filter_def tombada_select_def censo_select_def)
qed (simp_all add: especies_query_def q_truthy_def q_text_def q_value_def
       search_cond_def familia_cond_def rpa_cond_def show_nat.simps
       tombada_select_def censo_select_def)

text \<open>
  Claim C5. Two requests that supply the same inputs (an input is supplied when the
  handler's test \<open>if (search)\<close> holds, that is, when it is a non-empty text) get the same
  SQL text: the values travel only in the parameter list.
\<close>

theorem especies_query_text_independent_of_values:
  assumes "q_truthy search = q_truthy search'"
    and "q_truthy familia = q_truthy familia'"
    and "q_truthy rpa = q_truthy rpa'"
  shows "fst (especies_query search familia rpa) = fst (especies_query search' familia' rpa')"
  using assms
  by (cases "q_truthy search'"; cases "q_truthy familia'"; cases "q_truthy rpa'")
     (simp_all add: especies_query_def)

theorem especies_query_text_independent_of_values_witness:
  "q_truthy (Some ''ipe'') = q_truthy (Some (''x%'' @ [CHR 0x27] @ ''; DROP TABLE users; --'')) \<and>
   q_truthy None = q_truthy (Some []) \<and>
   q_truthy (Some ''3'') = q_truthy (Some ''1 OR 1=1'') \<and>
   fst (especies_query (Some ''ipe'') None (Some ''3'')) =
   fst (especies_query (Some (''x%'' @ [CHR 0x27] @ ''; DROP TABLE users; --'')) (Some [])
          (Some ''1 OR 1=1''))"
  using especies_query_text_independent_of_values
    [of "Some ''ipe''" "Some (''x%'' @ [CHR 0x27] @ ''; DROP TABLE users; --'')"
        None "Some []" "Some ''3''" "Some ''1 OR 1=1''"]
  by (simp add: q_truthy_def)

section \<open>Properties of the handlers\<close>

subsection \<open>Auxiliary facts\<close>

lemma issue_no_faults:
  "issue P no_faults c s = run_cmd P (length (trace s)) c (s\<lparr>trace := trace s @ [c]\<rparr>)"
  by (simp add: issue_def no_faults_def)

lemma pg_bind_JStr: "pg_bind P t c (JStr s) = Some (cast P t c (JStr s))"
  by (simp add: pg_bind_def)

lemma pg_bind_truthy: "truthy v \<Longrightarrow> pg_bind P t c v = Some (cast P t c v)"
  by (cases v) (simp_all add: pg_bind_def)

lemma sql_eq_Some: "sql_eq col (Some x) = (col = Some x)"
  by (auto simp: sql_eq_def)

lemma sql_eq_stored_username: "sql_eq col (stored_username P u) = (col = stored_username P u)"
  by (simp add: stored_username_def pg_bind_JStr sql_eq_Some)

lemma filter_find_Some: "find Q xs = Some r \<Longrightarrow> \<exists>rest. filter Q xs = r # rest"
  by (induction xs) (auto split: if_splits)

lemma filter_no_match: "x \<notin> f ` set xs \<Longrightarrow> filter (\<lambda>r. f r = x) xs = []"
  by (induction xs) auto

lemma filter_some_match: "x \<in> f ` set xs \<Longrightarrow> filter (\<lambda>r. f r = x) xs \<noteq> []"
  by (induction xs) auto

lemmas example_defs =
  example_platform_def example_lower_def example_cast_def digit_value_def E_acute_def
  e_acute_def empty_db_def db_bob_def db_forum_def msg_def

subsection \<open>Registration\<close>

lemma register_existing_status:
  assumes "b ''username'' = Some (JStr u)"
    and "stored_username P u \<in> u_username ` set (users d)"
  shows "map_option status (fst (register P no_faults b (fresh d))) = Some 400"
  using filter_some_match[OF assms(2)] assms(1)
  by (auto simp: register_def register_try_def body_field_def issue_no_faults and_then_def
        fresh_def view_def release_def Let_def sql_eq_stored_username
        stored_username_def [symmetric]
      split: option.splits prod.splits sum.splits if_splits)

lemma register_existing_durable:
  assumes "b ''username'' = Some (JStr u)"
    and "stored_username P u \<in> u_username ` set (users d)"
  shows "durable (snd (register P F b (fresh d))) = d"
  using filter_some_match[OF assms(2)] assms(1)
  by (auto simp: register_def register_try_def body_field_def issue_def and_then_def
        fresh_def view_def release_def Let_def sql_eq_stored_username
        stored_username_def [symmetric]
      split: option.splits prod.splits sum.splits if_splits)

text \<open>
  Claim C1. When the username of a registration request, lowercased by the runtime's
  \<open>toLowerCase\<close> and as the \<open>username\<close> column holds it, is the username of an existing
  user, the handler answers 400, and whatever the store does (also when it fails at some
  command) the committed tables, the users among them, are what they were. This holds
  for every \<open>toLowerCase\<close> and every schema.
\<close>

theorem register_existing_username:
  assumes "b ''username'' = Some (JStr u)"
    and "stored_username P u \<in> u_username ` set (users d)"
  shows "map_option status (fst (register P no_faults b (fresh d))) = Some 400 \<and>
         durable (snd (register P F b (fresh d))) = d \<and>
         users (durable (snd (register P F b (fresh d)))) = users d"
  using assms register_existing_status[of b u P d] register_existing_durable[of b u P d F]
  by simp

theorem register_existing_username_witness:
  "[''username'' \<mapsto> JStr (E_acute @ ''RICA''), ''password'' \<mapsto> JStr ''pw''] ''username'' =
     Some (JStr (E_acute @ ''RICA'')) \<and>
   stored_username example_platform (E_acute @ ''RICA'') \<in> u_username ` set (users db_bob) \<and>
   map_option status
     (fst (register example_platform no_faults
             [''username'' \<mapsto> JStr (E_acute @ ''RICA''), ''password'' \<mapsto> JStr ''pw'']
             (fresh db_bob))) = Some 400 \<and>
   users (durable (snd (register example_platform no_faults
             [''username'' \<mapsto> JStr (E_acute @ ''RICA''), ''password'' \<mapsto> JStr ''pw'']
             (fresh db_bob)))) =
   users db_bob"
proof -
  have h1: "[''username'' \<mapsto> JStr (E_acute @ ''RICA''), ''password'' \<mapsto> JStr ''pw''] ''username'' =
            Some (JStr (E_acute @ ''RICA''))"
    by simp
  have h2: "stored_username example_platform (E_acute @ ''RICA'') \<in>
            u_username ` set (users db_bob)"
    by (simp add: stored_username_def pg_bind_def example_defs)
  show ?thesis
    using h1 h2
      register_existing_username
        [of "[''username'' \<mapsto> JStr (E_acute @ ''RICA''), ''password'' \<mapsto> JStr ''pw'']"
            "E_acute @ ''RICA''" example_platform db_bob no_faults]
    by simp
qed

subsection \<open>Login\<close>

lemma login_unknown:
  assumes "b ''username'' = Some (JStr u)" and "u \<noteq> []"
    and "b ''password'' = Some p" and "truthy p"
    and "stored_username P u \<notin> u_username ` set (users d)"
  shows "fst (login P no_faults b (fresh d)) = Some (Response 404 (failure user_not_found))"
  using assms filter_no_match[OF assms(5)]
  by (simp add: login_def login_try_def body_field_def issue_no_faults and_then_def
        fresh_def view_def Let_def sql_eq_stored_username stored_username_def [symmetric])

lemma login_known:
  assumes "b ''username'' = Some (JStr u)" and "u \<noteq> []"
    and "b ''password'' = Some p" and "truthy p"
    and "find (\<lambda>r. u_username r = stored_username P u) (users d) = Some r"
  shows "fst (login P no_faults b (fresh d)) =
         Some (if strict_eq p (js_of (u_password r))
               then Response 200
                      (JObj [(''success'', JBool True),
                             (''message'', JStr ''Login bem-sucedido''),
                             (''user'', JObj [(''id'', u_id r),
                                              (''username'', js_of (u_username r))])])
               else Response 401 (failure ''Senha incorreta''))"
proof -
  from filter_find_Some[OF assms(5)] obtain rest where
    "filter (\<lambda>r. u_username r = stored_username P u) (users d) = r # rest"
    by blast
  with assms(1-4) show ?thesis
    by (simp add: login_def login_try_def body_field_def issue_no_faults and_then_def
          fresh_def view_def Let_def sql_eq_stored_username stored_username_def [symmetric]
          user_json_def)
qed

text \<open>
  Claim C2. A login request whose username is a non-empty text and whose password is
  present: when no user has the lowercased username (lowercased by the runtime's
  \<open>toLowerCase\<close>, as the \<open>username\<close> column holds it) the answer is 404; when \<open>r\<close> is
  the user with that username, the answer is 401 if the password differs from the stored
  one under \<open>===\<close>, and otherwise 200 with \<open>success: true\<close> and the id and username of
  \<open>r\<close>. This holds for every \<open>toLowerCase\<close> and every schema.
\<close>

theorem login_outcomes:
  assumes "b ''username'' = Some (JStr u)" and "u \<noteq> []"
    and "b ''password'' = Some p" and "truthy p"
  shows "(stored_username P u \<notin> u_username ` set (users d) \<longrightarrow>
            map_option status (fst (login P no_faults b (fresh d))) = Some 404) \<and>
         (find (\<lambda>r. u_username r = stored_username P u) (users d) = Some r \<and>
            \<not> strict_eq p (js_of (u_password r)) \<longrightarrow>
            map_option status (fst (login P no_faults b (fresh d))) = Some 401) \<and>
         (find (\<lambda>r. u_username r = stored_username P u) (users d) = Some r \<and>
            strict_eq p (js_of (u_password r)) \<longrightarrow>
            fst (login P no_faults b (fresh d)) =
              Some (Response 200
                      (JObj [(''success'', JBool True),
                             (''message'', JStr ''Login bem-sucedido''),
                             (''user'', JObj [(''id'', u_id r),
                                              (''username'', js_of (u_username r))])])))"
  using assms login_unknown[of b u p P d] login_known[of b u p P d r] by simp

theorem login_outcomes_witness:
  "map_option status
     (fst (login example_platform no_faults
             [''username'' \<mapsto> JStr ''Alice'', ''password'' \<mapsto> JStr ''secret'']
             (fresh db_bob))) = Some 404 \<and>
   map_option status
     (fst (login example_platform no_faults
             [''username'' \<mapsto> JStr ''BOB'', ''password'' \<mapsto> JStr ''Secret'']
             (fresh db_bob))) = Some 401 \<and>
   fst (login example_platform no_faults
          [''username'' \<mapsto> JStr (E_acute @ ''RICA''), ''password'' \<mapsto> JStr ''segredo'']
          (fresh db_bob)) =
     Some (Response 200
             (JObj [(''success'', JBool True),
                    (''message'', JStr ''Login bem-sucedido''),
                    (''user'', JObj [(''id'', JNum 2),
                                     (''username'', JStr (e_acute @ ''rica''))])]))"
  using
    login_outcomes[of "[''username'' \<mapsto> JStr ''Alice'', ''password'' \<mapsto> JStr ''secret'']"
      "''Alice''" "JStr ''secret''" example_platform db_bob]
    login_outcomes[of "[''username'' \<mapsto> JStr ''BOB'', ''password'' \<mapsto> JStr ''Secret'']"
      "''BOB''" "JStr ''Secret''" example_platform db_bob
      "\<lparr>u_id = JNum 1, u_username = Some (JStr ''bob''),
        u_password = Some (JStr ''secret'')\<rparr>"]
    login_outcomes[of "[''username'' \<mapsto> JStr (E_acute @ ''RICA''), ''password'' \<mapsto> JStr ''segredo'']"
      "E_acute @ ''RICA''" "JStr ''segredo''" example_platform db_bob
      "\<lparr>u_id = JNum 2, u_username = Some (JStr (e_acute @ ''rica'')),
        u_password = Some (JStr ''segredo'')\<rparr>"]
  by (simp add: stored_username_def pg_bind_def js_of_def example_defs)

subsection \<open>Transactions\<close>

text \<open>
  Room creation, once it has a client, always issues \<open>BEGIN\<close>, then \<open>COMMIT\<close> or
  \<open>ROLLBACK\<close>, and releases the client last, whatever the store does; the room and the
  membership of its creator become durable together or not at all.
\<close>

lemma create_room_commits_or_rolls_back:
  assumes "truthy (body_field b ''name'')" and "truthy (body_field b ''creator_id'')"
    and "F 0 = None"
  shows "Begin \<in> set (trace (snd (create_room P F b (fresh d)))) \<and>
         (Commit \<in> set (trace (snd (create_room P F b (fresh d)))) \<or>
          Rollback \<in> set (trace (snd (create_room P F b (fresh d))))) \<and>
         last (trace (snd (create_room P F b (fresh d)))) = Release"
  using assms
  by (cases "F (Suc 0)"; cases "F (Suc (Suc 0))"; cases "F (Suc (Suc (Suc 0)))";
      cases "F (Suc (Suc (Suc (Suc 0))))"; cases "F (Suc (Suc (Suc (Suc (Suc 0)))))")
     (simp_all add: create_room_def create_room_try_def issue_def and_then_def fresh_def view_def
        release_def Let_def room_json_def)

lemma create_room_atomic:
  "durable (snd (create_room P F b (fresh d))) = d \<or>
   durable (snd (create_room P F b (fresh d))) =
     d\<lparr>rooms := rooms d @
            [\<lparr>r_id = generated_id P 2,
              r_name = pg_bind P ''rooms'' ''name'' (body_field b ''name''),
              r_description = pg_bind P ''rooms'' ''description'' (body_field b ''description''),
              r_creator_id = pg_bind P ''rooms'' ''creator_id'' (body_field b ''creator_id''),
              r_created_at = generated_time P 2\<rparr>],
       room_members := room_members d @
            [(pg_bind P ''room_members'' ''room_id'' (generated_id P 2),
              pg_bind P ''room_members'' ''user_id'' (body_field b ''creator_id''))]\<rparr>"
  by (cases "F 0"; cases "F (Suc 0)"; cases "F (Suc (Suc 0))"; cases "F (Suc (Suc (Suc 0)))";
      cases "F (Suc (Suc (Suc (Suc 0))))"; cases "F (Suc (Suc (Suc (Suc (Suc 0)))))")
     (simp_all add: create_room_def create_room_try_def issue_def and_then_def fresh_def view_def
        release_def Let_def room_json_def numeral_2_eq_2)

text \<open>So does registration with a username that is not taken.\<close>

lemma register_commits_or_rolls_back:
  assumes "b ''username'' = Some (JStr u)" and "u \<noteq> []"
    and "truthy (body_field b ''password'')" and "F 0 = None"
    and "stored_username P u \<notin> u_username ` set (users d)"
  shows "Commit \<in> set (trace (snd (register P F b (fresh d)))) \<or>
         Rollback \<in> set (trace (snd (register P F b (fresh d))))"
  using assms filter_no_match[OF assms(5)]
  by (cases "F (Suc 0)"; cases "F (Suc (Suc 0))"; cases "F (Suc (Suc (Suc 0)))";
      cases "F (Suc (Suc (Suc (Suc 0))))"; cases "F (Suc (Suc (Suc (Suc (Suc 0)))))")
     (simp_all add: register_def register_try_def issue_def and_then_def fresh_def view_def
        release_def Let_def body_field_def sql_eq_stored_username stored_username_def [symmetric])

text \<open>
  Claim C9, at a registration whose username is taken: the handler checks a client out,
  issues \<open>BEGIN\<close> and the lookup, answers 400 and releases the client. Neither \<open>COMMIT\<close>
  nor \<open>ROLLBACK\<close> is issued on this path, and the transaction is still open when the
  client goes back to the pool.
\<close>

theorem register_taken_neither_commits_nor_rolls_back:
  "register example_platform no_faults [''username'' \<mapsto> JStr ''Bob'', ''password'' \<mapsto> JStr ''pw'']
     (fresh db_bob) =
     (Some (Response 400 (failure username_taken)),
      \<lparr>durable = db_bob, txn = Some db_bob,
       trace = [Connect, Begin, Query (SelectUserId (JStr ''bob'')), Release]\<rparr>)"
  by (simp add: register_def register_try_def body_field_def issue_no_faults and_then_def
        fresh_def view_def release_def Let_def sql_eq_def pg_bind_def example_defs)

theorem register_taken_neither_commits_nor_rolls_back_witness:
  "Commit \<notin> set (trace (snd (register example_platform no_faults
       [''username'' \<mapsto> JStr ''Bob'', ''password'' \<mapsto> JStr ''pw''] (fresh db_bob)))) \<and>
   Rollback \<notin> set (trace (snd (register example_platform no_faults
       [''username'' \<mapsto> JStr ''Bob'', ''password'' \<mapsto> JStr ''pw''] (fresh db_bob)))) \<and>
   txn (snd (register example_platform no_faults
       [''username'' \<mapsto> JStr ''Bob'', ''password'' \<mapsto> JStr ''pw''] (fresh db_bob))) \<noteq> None"
  using register_taken_neither_commits_nor_rolls_back by simp

subsection \<open>Plant creation\<close>

lemma create_plant_no_name:
  assumes "\<not> truthy (body_field b ''nome_cientifico'')"
    and "\<not> truthy (body_field b ''nome_popular'')"
  shows "create_plant P F b s = (Some (Response 400 (failure name_required)), s)"
  using assms by (simp add: create_plant_def Let_def)

lemma create_plant_no_coordinates:
  assumes "\<not> truthy (body_field b ''latitude'') \<or> \<not> truthy (body_field b ''longitude'')"
  shows "map_option status (fst (create_plant P F b s)) = Some 400 \<and>
         snd (create_plant P F b s) = s"
  using assms by (auto simp: create_plant_def Let_def)

text \<open>
  With a name and both coordinates truthy the request is accepted: one row is inserted
  and the answer is 201.
\<close>

lemma create_plant_accepts:
  assumes "truthy (body_field b ''nome_cientifico'') \<or> truthy (body_field b ''nome_popular'')"
    and "truthy (body_field b ''latitude'')" and "truthy (body_field b ''longitude'')"
  shows "map_option status (fst (create_plant P no_faults b (fresh d))) = Some 201 \<and>
         length (plantas (durable (snd (create_plant P no_faults b (fresh d))))) =
           length (plantas d) + 1"
  using assms
  by (auto simp: create_plant_def Let_def issue_no_faults fresh_def view_def)

text \<open>
  Claim C3 says that a request with a name and both coordinates is answered 201. The
  handler takes a coordinate that is the number 0 for a missing one: a plant on the
  equator, with its scientific name, latitude 0 and longitude -51.07, is answered 400
  with the message that the coordinates are required, and nothing is sent to the store.
\<close>

theorem create_plant_on_equator_rejected:
  "body_field [''nome_cientifico'' \<mapsto> JStr ''Hevea brasiliensis'', ''latitude'' \<mapsto> JNum 0,
               ''longitude'' \<mapsto> JNum (-51.07)] ''nome_cientifico'' = JStr ''Hevea brasiliensis'' \<and>
   body_field [''nome_cientifico'' \<mapsto> JStr ''Hevea brasiliensis'', ''latitude'' \<mapsto> JNum 0,
               ''longitude'' \<mapsto> JNum (-51.07)] ''latitude'' = JNum 0 \<and>
   body_field [''nome_cientifico'' \<mapsto> JStr ''Hevea brasiliensis'', ''latitude'' \<mapsto> JNum 0,
               ''longitude'' \<mapsto> JNum (-51.07)] ''longitude'' = JNum (-51.07) \<and>
   create_plant example_platform no_faults
     [''nome_cientifico'' \<mapsto> JStr ''Hevea brasiliensis'', ''latitude'' \<mapsto> JNum 0,
      ''longitude'' \<mapsto> JNum (-51.07)] (fresh empty_db) =
     (Some (Response 400 (failure coordinates_required)), fresh empty_db) \<and>
   map_option status
     (fst (create_plant example_platform no_faults
             [''nome_cientifico'' \<mapsto> JStr ''Hevea brasiliensis'', ''latitude'' \<mapsto> JNum 0,
              ''longitude'' \<mapsto> JNum (-51.07)] (fresh empty_db))) \<noteq> Some 201"
  by (simp add: create_plant_def body_field_def Let_def)

theorem create_plant_on_equator_rejected_witness:
  "map_option status
     (fst (create_plant example_platform no_faults
             [''nome_cientifico'' \<mapsto> JStr ''Hevea brasiliensis'', ''latitude'' \<mapsto> JNum 0,
              ''longitude'' \<mapsto> JNum (-51.07)] (fresh empty_db))) = Some 400 \<and>
   plantas (durable (snd (create_plant example_platform no_faults
             [''nome_cientifico'' \<mapsto> JStr ''Hevea brasiliensis'', ''latitude'' \<mapsto> JNum 0,
              ''longitude'' \<mapsto> JNum (-51.07)] (fresh empty_db)))) = [] \<and>
   trace (snd (create_plant example_platform no_faults
             [''nome_cientifico'' \<mapsto> JStr ''Hevea brasiliensis'', ''latitude'' \<mapsto> JNum 0,
              ''longitude'' \<mapsto> JNum (-51.07)] (fresh empty_db))) = []"
  using create_plant_on_equator_rejected
  by (simp add: fresh_def empty_db_def)

text \<open>
  Claim C10. The coordinates are tested by truthiness: a request whose latitude or
  longitude is 0 or the empty text is answered 400 and nothing is sent to the store;
  when a name is given, the answer is the one that says the coordinates are required.
\<close>

theorem create_plant_zero_coordinate:
  assumes "body_field b ''latitude'' \<in> {JNum 0, JStr []} \<or>
           body_field b ''longitude'' \<in> {JNum 0, JStr []}"
  shows "map_option status (fst (create_plant P F b s)) = Some 400 \<and>
         snd (create_plant P F b s) = s \<and>
         (truthy (body_field b ''nome_cientifico'') \<or> truthy (body_field b ''nome_popular'') \<longrightarrow>
            fst (create_plant P F b s) = Some (Response 400 (failure coordinates_required)))"
proof -
  from assms have falsy:
    "\<not> truthy (body_field b ''latitude'') \<or> \<not> truthy (body_field b ''longitude'')"
    by auto
  then show ?thesis
    using create_plant_no_coordinates[of b P F s] by (auto simp: create_plant_def Let_def)
qed

theorem create_plant_zero_coordinate_witness:
  "body_field [''nome_popular'' \<mapsto> JStr ''Ipe'', ''latitude'' \<mapsto> JNum 0,
               ''longitude'' \<mapsto> JNum (-34.9)] ''latitude'' \<in> {JNum 0, JStr []} \<and>
   create_plant example_platform no_faults
     [''nome_popular'' \<mapsto> JStr ''Ipe'', ''latitude'' \<mapsto> JNum 0, ''longitude'' \<mapsto> JNum (-34.9)]
     (fresh empty_db) =
     (Some (Response 400 (failure coordinates_required)), fresh empty_db)"
proof -
  have h: "body_field [''nome_popular'' \<mapsto> JStr ''Ipe'', ''latitude'' \<mapsto> JNum 0,
               ''longitude'' \<mapsto> JNum (-34.9)] ''latitude'' \<in> {JNum 0, JStr []}"
    by (simp add: body_field_def)
  have t: "truthy (body_field [''nome_popular'' \<mapsto> JStr ''Ipe'', ''latitude'' \<mapsto> JNum 0,
               ''longitude'' \<mapsto> JNum (-34.9)] ''nome_popular'')"
    by (simp add: body_field_def)
  show ?thesis
    using h t
      create_plant_zero_coordinate
        [of "[''nome_popular'' \<mapsto> JStr ''Ipe'', ''latitude'' \<mapsto> JNum 0,
              ''longitude'' \<mapsto> JNum (-34.9)]" example_platform no_faults "fresh empty_db"]
    by (simp add: prod_eq_iff)
qed

subsection \<open>Listing messages\<close>

lemma most_recent_length: "length (most_recent n ms) = min n (length ms)"
  by (simp add: most_recent_def chronological_def)

lemma most_recent_sorted: "sorted (map m_timestamp (most_recent n ms))"
  by (simp add: most_recent_def chronological_def drop_map [symmetric] sorted_wrt_drop)

lemma most_recent_subset: "set (most_recent n ms) \<subseteq> set ms"
  using set_drop_subset[of "length ms - n" "chronological ms"]
  by (simp add: most_recent_def chronological_def)

lemma most_recent_newest:
  assumes "x \<in> set (take (length ms - n) (chronological ms))"
    and "y \<in> set (most_recent n ms)"
  shows "m_timestamp x \<le> m_timestamp y"
proof -
  let ?c = "chronological ms" and ?k = "length ms - n"
  have "sorted (map m_timestamp (take ?k ?c @ drop ?k ?c))"
    by (simp add: chronological_def)
  then have "\<forall>a \<in> set (take ?k ?c). \<forall>b \<in> set (drop ?k ?c). m_timestamp a \<le> m_timestamp b"
    unfolding map_append sorted_append by auto
  with assms show ?thesis by (simp add: most_recent_def)
qed

lemma reverse_of_newest: "rev (take n (newest_first ms)) = most_recent n ms"
  by (simp add: newest_first_def most_recent_def chronological_def rev_take)

lemma list_messages_limit:
  assumes "0 \<le> n"
  shows "fst (list_messages P no_faults roomId (Some n) (fresh d)) =
         Some (Response 200
                 (JArr (map (message_json P) (most_recent (nat n) (room_messages P (JStr roomId) d)))))"
  using assms
  by (simp add: list_messages_def issue_no_faults fresh_def view_def rev_map
        reverse_of_newest)

lemma list_messages_default:
  "fst (list_messages P no_faults roomId None (fresh d)) =
   Some (Response 200
           (JArr (map (message_json P) (most_recent 50 (room_messages P (JStr roomId) d)))))"
  using reverse_of_newest[of 50 "room_messages P (JStr roomId) d"]
  by (simp add: list_messages_def issue_no_faults fresh_def view_def rev_map)

text \<open>
  Claim C6. With a limit \<open>n \<ge> 0\<close> (50 when the request gives none) the listing of a room
  is, on a store that raises no error, the \<open>n\<close> most recent messages of the room, oldest
  first: \<open>min n\<close> of the room's messages, in ascending order of time, none of the
  messages left out being newer than one returned.
\<close>

theorem list_messages_most_recent:
  assumes "0 \<le> n"
  shows "fst (list_messages P no_faults roomId (Some n) (fresh d)) =
           Some (Response 200
                   (JArr (map (message_json P)
                            (most_recent (nat n) (room_messages P (JStr roomId) d))))) \<and>
         fst (list_messages P no_faults roomId None (fresh d)) =
           Some (Response 200
                   (JArr (map (message_json P) (most_recent 50 (room_messages P (JStr roomId) d))))) \<and>
         length (most_recent (nat n) (room_messages P (JStr roomId) d)) =
           min (nat n) (length (room_messages P (JStr roomId) d)) \<and>
         sorted (map m_timestamp (most_recent (nat n) (room_messages P (JStr roomId) d))) \<and>
         set (most_recent (nat n) (room_messages P (JStr roomId) d)) \<subseteq>
           set (room_messages P (JStr roomId) d) \<and>
         (\<forall>x \<in> set (take (length (room_messages P (JStr roomId) d) - nat n)
                        (chronological (room_messages P (JStr roomId) d))).
          \<forall>y \<in> set (most_recent (nat n) (room_messages P (JStr roomId) d)).
            m_timestamp x \<le> m_timestamp y)"
  using list_messages_limit[OF assms] list_messages_default most_recent_length
    most_recent_sorted most_recent_subset most_recent_newest
  by blast

theorem list_messages_most_recent_witness:
  "(0::int) \<le> 2 \<and>
   length (room_messages example_platform (JStr ''7'') db_forum) = 5 \<and>
   fst (list_messages example_platform no_faults ''7'' (Some 2) (fresh db_forum)) =
     Some (Response 200
             (JArr [message_json example_platform (msg 6 7 40),
                    message_json example_platform (msg 4 7 50)]))"
proof -
  have room: "room_messages example_platform (JStr ''7'') db_forum =
        [msg 1 7 30, msg 2 7 10, msg 4 7 50, msg 5 7 20, msg 6 7 40]"
    by (simp add: room_messages_def sql_eq_def pg_bind_def example_defs)
  have recent: "most_recent 2 [msg 1 7 30, msg 2 7 10, msg 4 7 50, msg 5 7 20, msg 6 7 40] =
                  [msg 6 7 40, msg 4 7 50]"
    by (simp add: most_recent_def chronological_def msg_def)
  show ?thesis
    using list_messages_most_recent[of 2 example_platform "''7''" db_forum]
    by (simp add: room recent)
qed

subsection \<open>Membership\<close>

lemma member_row_truthy:
  "truthy u \<Longrightarrow>
   member_row P roomId u =
     (Some (cast P ''room_members'' ''room_id'' (JStr roomId)),
      Some (cast P ''room_members'' ''user_id'' u))"
  by (simp add: member_row_def pg_bind_JStr pg_bind_truthy)

lemma is_member_truthy:
  "truthy u \<Longrightarrow> is_member P (JStr roomId) u row = (row = member_row P roomId u)"
  by (cases row) (auto simp: is_member_def member_row_truthy pg_bind_JStr pg_bind_truthy sql_eq_Some)

lemma member_rows:
  "truthy u \<Longrightarrow> member_row P roomId u \<in> set ms \<Longrightarrow>
   filter (is_member P (JStr roomId) u) ms \<noteq> []"
  by (auto simp: filter_empty_conv is_member_truthy)

lemma no_member_rows:
  "truthy u \<Longrightarrow> member_row P roomId u \<notin> set ms \<Longrightarrow>
   filter (is_member P (JStr roomId) u) ms = []"
  by (auto simp: filter_empty_conv is_member_truthy)

lemma join_room_member:
  assumes "b ''user_id'' = Some u" and "truthy u"
    and "member_row P roomId u \<in> set (room_members d)"
  shows "join_room P no_faults roomId b (fresh d) =
         (Some (Response 200 (JObj [(''message'', JStr ''User is already a member'')])),
          \<lparr>durable = d, txn = None, trace = [Query (SelectMember (JStr roomId) u)]\<rparr>)"
  using assms member_rows[OF assms(2,3)]
  by (simp add: join_room_def body_field_def issue_no_faults and_then_def fresh_def view_def)

lemma join_room_member_durable:
  assumes "b ''user_id'' = Some u" and "truthy u"
    and "member_row P roomId u \<in> set (room_members d)"
  shows "durable (snd (join_room P F roomId b (fresh d))) = d"
  using assms member_rows[OF assms(2,3)]
  by (auto simp: join_room_def body_field_def issue_def and_then_def fresh_def view_def Let_def
      split: option.splits)

lemma join_room_new:
  assumes "b ''user_id'' = Some u" and "truthy u"
    and "member_row P roomId u \<notin> set (room_members d)"
  shows "join_room P no_faults roomId b (fresh d) =
         (Some (Response 200 (JObj [(''message'', JStr ''Successfully joined room'')])),
          \<lparr>durable = d\<lparr>room_members := room_members d @ [member_row P roomId u]\<rparr>, txn = None,
           trace = [Query (SelectMember (JStr roomId) u), Query (InsertMember (JStr roomId) u)]\<rparr>)"
  using assms no_member_rows[OF assms(2,3)]
  by (simp add: join_room_def body_field_def issue_no_faults and_then_def fresh_def view_def
        member_row_def)

text \<open>
  Claim C7. For a request with a truthy \<open>user_id\<close>: when the pair of room and user, as
  the columns of \<open>room_members\<close> hold them, is already a row of \<open>room_members\<close>, the
  answer is 200 with the message that the user is already a member, the only statement
  sent is the lookup, and the committed tables are unchanged whatever the store does;
  when the pair is not yet there, the answer is 200 with the message of success and
  exactly one row, this pair, is added. A second join after a first therefore changes
  nothing. This holds for every schema.
\<close>

theorem join_room_idempotent:
  assumes "b ''user_id'' = Some u" and "truthy u"
  shows "(member_row P roomId u \<in> set (room_members d) \<longrightarrow>
            join_room P no_faults roomId b (fresh d) =
              (Some (Response 200 (JObj [(''message'', JStr ''User is already a member'')])),
               \<lparr>durable = d, txn = None, trace = [Query (SelectMember (JStr roomId) u)]\<rparr>) \<and>
            durable (snd (join_room P F roomId b (fresh d))) = d) \<and>
         (member_row P roomId u \<notin> set (room_members d) \<longrightarrow>
            fst (join_room P no_faults roomId b (fresh d)) =
              Some (Response 200 (JObj [(''message'', JStr ''Successfully joined room'')])) \<and>
            durable (snd (join_room P no_faults roomId b (fresh d))) =
              d\<lparr>room_members := room_members d @ [member_row P roomId u]\<rparr>) \<and>
         (let joined = durable (snd (join_room P no_faults roomId b (fresh d)))
          in fst (join_room P no_faults roomId b (fresh joined)) =
               Some (Response 200 (JObj [(''message'', JStr ''User is already a member'')])) \<and>
             durable (snd (join_room P no_faults roomId b (fresh joined))) = joined)"
proof -
  let ?joined = "durable (snd (join_room P no_faults roomId b (fresh d)))"
  have member_after: "member_row P roomId u \<in> set (room_members ?joined)"
  proof (cases "member_row P roomId u \<in> set (room_members d)")
    case True
    then show ?thesis using join_room_member[of b u P roomId d] assms by simp
  next
    case False
    then show ?thesis using join_room_new[of b u P roomId d] assms by simp
  qed
  have again: "join_room P no_faults roomId b (fresh ?joined) =
         (Some (Response 200 (JObj [(''message'', JStr ''User is already a member'')])),
          \<lparr>durable = ?joined, txn = None, trace = [Query (SelectMember (JStr roomId) u)]\<rparr>)"
    using join_room_member[of b u P roomId ?joined] assms member_after by simp
  show ?thesis
    using assms join_room_member[of b u P roomId d]
      join_room_member_durable[of b u P roomId d F] join_room_new[of b u P roomId d] again
    by (simp add: Let_def)
qed

text \<open>
  On the example platform: user 1, the member of room 7, is told so whether the request
  names the user by the number 1 or by the text \<open>1\<close>, and the room by \<open>7\<close> or \<open>07\<close>;
  user 2 joins, and one row is added.
\<close>

theorem join_room_idempotent_witness:
  "join_room example_platform no_faults ''7'' [''user_id'' \<mapsto> JNum 1] (fresh db_forum) =
     (Some (Response 200 (JObj [(''message'', JStr ''User is already a member'')])),
      \<lparr>durable = db_forum, txn = None, trace = [Query (SelectMember (JStr ''7'') (JNum 1))]\<rparr>) \<and>
   join_room example_platform no_faults ''07'' [''user_id'' \<mapsto> JStr ''1''] (fresh db_forum) =
     (Some (Response 200 (JObj [(''message'', JStr ''User is already a member'')])),
      \<lparr>durable = db_forum, txn = None,
       trace = [Query (SelectMember (JStr ''07'') (JStr ''1''))]\<rparr>) \<and>
   fst (join_room example_platform no_faults ''7'' [''user_id'' \<mapsto> JNum 2] (fresh db_forum)) =
     Some (Response 200 (JObj [(''message'', JStr ''Successfully joined room'')])) \<and>
   room_members (durable (snd (join_room example_platform no_faults ''7''
                                 [''user_id'' \<mapsto> JNum 2] (fresh db_forum)))) =
     [(Some (JNum 7), Some (JNum 1)), (Some (JNum 7), Some (JNum 2))]"
  using
    join_room_idempotent[of "[''user_id'' \<mapsto> JNum 1]" "JNum 1" example_platform "''7''" db_forum
      no_faults]
    join_room_idempotent[of "[''user_id'' \<mapsto> JStr ''1'']" "JStr ''1''" example_platform "''07''"
      db_forum no_faults]
    join_room_idempotent[of "[''user_id'' \<mapsto> JNum 2]" "JNum 2" example_platform "''7''" db_forum
      no_faults]
  by (simp add: member_row_def pg_bind_def example_defs)

subsection \<open>Sending a message\<close>

lemma send_message_non_member:
  assumes "b ''sender_id'' = Some u" and "truthy u"
    and "b ''content'' = Some c" and "truthy c"
    and "member_row P roomId u \<notin> set (room_members d)"
  shows "send_message P no_faults roomId b (fresh d) =
         (Some (Response 403 (error_only ''User is not a member of this room'')),
          \<lparr>durable = d, txn = None, trace = [Query (SelectMember (JStr roomId) u)]\<rparr>)"
  using assms no_member_rows[OF assms(2,5)]
  by (simp add: send_message_def body_field_def issue_no_faults and_then_def fresh_def view_def)

lemma send_message_non_member_durable:
  assumes "b ''sender_id'' = Some u" and "truthy u"
    and "b ''content'' = Some c" and "truthy c"
    and "member_row P roomId u \<notin> set (room_members d)"
  shows "durable (snd (send_message P F roomId b (fresh d))) = d"
  using assms no_member_rows[OF assms(2,5)]
  by (auto simp: send_message_def body_field_def issue_def and_then_def fresh_def view_def Let_def
      split: option.splits)

lemma send_message_member:
  assumes "b ''sender_id'' = Some u" and "truthy u"
    and "b ''content'' = Some c" and "truthy c"
    and "member_row P roomId u \<in> set (room_members d)"
  shows "send_message P no_faults roomId b (fresh d) =
         (let row = \<lparr>m_id = generated_id P 1,
                      m_room_id = pg_bind P ''messages'' ''room_id'' (JStr roomId),
                      m_sender_id = pg_bind P ''messages'' ''sender_id'' u,
                      m_content = pg_bind P ''messages'' ''content'' c,
                      m_timestamp = generated_time P 1\<rparr>
          in (Some (Response 201 (message_json P row)),
              \<lparr>durable = d\<lparr>messages := messages d @ [row]\<rparr>, txn = None,
               trace = [Query (SelectMember (JStr roomId) u),
                        Query (InsertMessage (JStr roomId) u c)]\<rparr>))"
  using assms member_rows[OF assms(2,5)]
  by (simp add: send_message_def body_field_def issue_no_faults and_then_def fresh_def view_def
        Let_def)

text \<open>
  Claim C8. For a request with a truthy sender and content: when the pair of room and
  sender, as the columns of \<open>room_members\<close> hold them, is not a row of \<open>room_members\<close>,
  the answer is 403 and the committed tables are unchanged whatever the store does; and
  once the sender has joined the room, the same request is answered 201 with the row it
  inserts, the one row added to the messages. This holds for every schema.
\<close>

theorem send_message_membership:
  assumes "b ''sender_id'' = Some u" and "truthy u"
    and "b ''content'' = Some c" and "truthy c"
  shows "(member_row P roomId u \<notin> set (room_members d) \<longrightarrow>
            map_option status (fst (send_message P no_faults roomId b (fresh d))) = Some 403 \<and>
            durable (snd (send_message P F roomId b (fresh d))) = d \<and>
            messages (durable (snd (send_message P F roomId b (fresh d)))) = messages d) \<and>
         (let joined = durable (snd (join_room P no_faults roomId [''user_id'' \<mapsto> u] (fresh d)));
              row = \<lparr>m_id = generated_id P 1,
                      m_room_id = pg_bind P ''messages'' ''room_id'' (JStr roomId),
                      m_sender_id = pg_bind P ''messages'' ''sender_id'' u,
                      m_content = pg_bind P ''messages'' ''content'' c,
                      m_timestamp = generated_time P 1\<rparr>
          in fst (send_message P no_faults roomId b (fresh joined)) =
               Some (Response 201 (message_json P row)) \<and>
             messages (durable (snd (send_message P no_faults roomId b (fresh joined)))) =
               messages d @ [row])"
proof -
  let ?joined = "durable (snd (join_room P no_faults roomId [''user_id'' \<mapsto> u] (fresh d)))"
  let ?row = "\<lparr>m_id = generated_id P 1,
                m_room_id = pg_bind P ''messages'' ''room_id'' (JStr roomId),
                m_sender_id = pg_bind P ''messages'' ''sender_id'' u,
                m_content = pg_bind P ''messages'' ''content'' c,
                m_timestamp = generated_time P 1\<rparr>"
  have joined: "member_row P roomId u \<in> set (room_members ?joined) \<and>
                messages ?joined = messages d"
  proof (cases "member_row P roomId u \<in> set (room_members d)")
    case True
    then show ?thesis
      using join_room_member[of "[''user_id'' \<mapsto> u]" u P roomId d] assms(2) by simp
  next
    case False
    then show ?thesis
      using join_room_new[of "[''user_id'' \<mapsto> u]" u P roomId d] assms(2) by simp
  qed
  then have after: "fst (send_message P no_faults roomId b (fresh ?joined)) =
        Some (Response 201 (message_json P ?row)) \<and>
      messages (durable (snd (send_message P no_faults roomId b (fresh ?joined)))) =
        messages d @ [?row]"
    using send_message_member[of b u c P roomId ?joined] assms by (simp add: Let_def)
  show ?thesis
    using assms send_message_non_member[of b u c P roomId d]
      send_message_non_member_durable[of b u c P roomId d F] after
    by (simp add: Let_def)
qed

text \<open>
  On the example platform: user 2, not a member of room 7, is refused and, having
  joined, is answered 201; and the creator of a room, whose membership was inserted with
  the generated id of the room, posts to the room named by the text of that id.
\<close>

theorem send_message_membership_witness:
  "map_option status
     (fst (send_message example_platform no_faults ''7''
             [''sender_id'' \<mapsto> JNum 2, ''content'' \<mapsto> JStr ''ola''] (fresh db_forum))) = Some 403 \<and>
   messages (durable (snd (send_message example_platform no_faults ''7''
       [''sender_id'' \<mapsto> JNum 2, ''content'' \<mapsto> JStr ''ola''] (fresh db_forum)))) =
     messages db_forum \<and>
   fst (send_message example_platform no_faults ''7''
          [''sender_id'' \<mapsto> JNum 2, ''content'' \<mapsto> JStr ''ola'']
          (fresh (durable (snd (join_room example_platform no_faults ''7''
                                  [''user_id'' \<mapsto> JNum 2] (fresh db_forum)))))) =
     Some (Response 201
             (JObj [(''id'', JNum 101), (''room_id'', JNum 7), (''sender_id'', JNum 2),
                    (''content'', JStr ''ola''), (''timestamp'', JNum 1001)])) \<and>
   room_members (durable (snd (create_room example_platform no_faults
       [''name'' \<mapsto> JStr ''Praca'', ''creator_id'' \<mapsto> JNum 1] (fresh db_bob)))) =
     [(Some (JNum 102), Some (JNum 1))] \<and>
   map_option status
     (fst (send_message example_platform no_faults ''102''
             [''sender_id'' \<mapsto> JStr ''1'', ''content'' \<mapsto> JStr ''ola'']
             (fresh (durable (snd (create_room example_platform no_faults
                [''name'' \<mapsto> JStr ''Praca'', ''creator_id'' \<mapsto> JNum 1] (fresh db_bob))))))) =
     Some 201"
proof -
  have created: "durable (snd (create_room example_platform no_faults
       [''name'' \<mapsto> JStr ''Praca'', ''creator_id'' \<mapsto> JNum 1] (fresh db_bob))) =
     db_bob\<lparr>rooms := [\<lparr>r_id = JNum 102, r_name = Some (JStr ''Praca''), r_description = None,
                        r_creator_id = Some (JNum 1), r_created_at = 1002\<rparr>],
            room_members := [(Some (JNum 102), Some (JNum 1))]\<rparr>"
    by (simp add: create_room_def create_room_try_def body_field_def issue_no_faults
          and_then_def fresh_def view_def release_def Let_def room_json_def pg_bind_def
          example_defs)
  have posted: "map_option status
     (fst (send_message example_platform no_faults ''102''
             [''sender_id'' \<mapsto> JStr ''1'', ''content'' \<mapsto> JStr ''ola'']
             (fresh (db_bob\<lparr>rooms := [\<lparr>r_id = JNum 102, r_name = Some (JStr ''Praca''),
                        r_description = None, r_creator_id = Some (JNum 1),
                        r_created_at = 1002\<rparr>],
                room_members := [(Some (JNum 102), Some (JNum 1))]\<rparr>)))) = Some 201"
    by (simp add: send_message_def body_field_def issue_no_faults and_then_def fresh_def
          view_def Let_def is_member_def sql_eq_def pg_bind_def message_json_def example_defs)
  have absent: "member_row example_platform ''7'' (JNum 2) \<notin> set (room_members db_forum)"
    by (simp add: member_row_def pg_bind_def example_defs)
  have main:
    "(member_row example_platform ''7'' (JNum 2) \<notin> set (room_members db_forum) \<longrightarrow>
        map_option status
          (fst (send_message example_platform no_faults ''7''
                  [''sender_id'' \<mapsto> JNum 2, ''content'' \<mapsto> JStr ''ola''] (fresh db_forum))) =
          Some 403 \<and>
        durable (snd (send_message example_platform no_faults ''7''
                  [''sender_id'' \<mapsto> JNum 2, ''content'' \<mapsto> JStr ''ola''] (fresh db_forum))) =
          db_forum \<and>
        messages (durable (snd (send_message example_platform no_faults ''7''
                  [''sender_id'' \<mapsto> JNum 2, ''content'' \<mapsto> JStr ''ola''] (fresh db_forum)))) =
          messages db_forum) \<and>
     fst (send_message example_platform no_faults ''7''
            [''sender_id'' \<mapsto> JNum 2, ''content'' \<mapsto> JStr ''ola'']
            (fresh (durable (snd (join_room example_platform no_faults ''7''
                                    [''user_id'' \<mapsto> JNum 2] (fresh db_forum)))))) =
       Some (Response 201
               (message_json example_platform
                  \<lparr>m_id = generated_id example_platform 1,
                   m_room_id = pg_bind example_platform ''messages'' ''room_id'' (JStr ''7''),
                   m_sender_id = pg_bind example_platform ''messages'' ''sender_id'' (JNum 2),
                   m_content = pg_bind example_platform ''messages'' ''content'' (JStr ''ola''),
                   m_timestamp = generated_time example_platform 1\<rparr>))"
    using send_message_membership
      [of "[''sender_id'' \<mapsto> JNum 2, ''content'' \<mapsto> JStr ''ola'']" "JNum 2" "JStr ''ola''"
          example_platform "''7''" db_forum no_faults]
    by (simp add: Let_def)
  have row: "message_json example_platform
                  \<lparr>m_id = generated_id example_platform (Suc 0),
                   m_room_id = pg_bind example_platform ''messages'' ''room_id'' (JStr ''7''),
                   m_sender_id = pg_bind example_platform ''messages'' ''sender_id'' (JNum 2),
                   m_content = pg_bind example_platform ''messages'' ''content'' (JStr ''ola''),
                   m_timestamp = generated_time example_platform (Suc 0)\<rparr> =
             JObj [(''id'', JNum 101), (''room_id'', JNum 7), (''sender_id'', JNum 2),
                   (''content'', JStr ''ola''), (''timestamp'', JNum 1001)]"
    by (simp add: message_json_def pg_bind_def js_of_def example_defs)
  show ?thesis
    using main absent by (simp add: row created posted)
qed

end
